theory Spec2Isabelle
  imports Main "HOL-Library.Char_ord" "HOL-Library.List_Lexorder" "HOL-Library.Product_Lexorder"
    "HOL-Library.Multiset" "HOL-Library.Sublist"
begin

section \<open>The Continuous Improvement and Knowledge Hub page\<close>

text \<open>
  A shallow embedding of \<^verbatim>\<open>dashboards/kaizen_training_hub.py\<close>: three providers of
  static content (Kaizen events, training materials, glossary) and the routine
  \<^verbatim>\<open>render_kaizen_training_hub\<close> that lays them out with the display toolkit.

  Python strings are modelled as \<^typ>\<open>string\<close> holding the UTF-8 bytes of the text.
  The page only concatenates strings, tests them for equality and (in the sort by
  date) compares them; the bytewise lexicographic order of UTF-8 is the code-point
  order Python compares by. Characters outside printable ASCII are written by code.
\<close>

subsection \<open>Data model\<close>

text \<open>
  The records are Python dictionaries with a fixed set of string keys; each becomes a
  record with one field per key. The key \<^verbatim>\<open>formula\<close> of a glossary term is
  present in some dictionaries only, so the field is optional and
  \<^verbatim>\<open>'formula' in item\<close> is \<open>formula item \<noteq> None\<close>.
\<close>

record kaizen_event =
  id_kaizen :: string
  title_kaizen :: string
  site :: string
  date :: string
  problem_background :: string
  analysis_and_countermeasures :: string
  quantified_results :: string
  key_insight :: string

text \<open>
  A float literal written with one fractional digit (\<^verbatim>\<open>2.5\<close>, \<^verbatim>\<open>8.0\<close>): whole part
  and fractional digit. These are the only floats of the module, each is exactly
  representable, and Python prints it back as written.
\<close>

datatype pyfloat = PyFloat nat nat

record training_material =
  id_training :: string
  title_training :: string
  type_training :: string
  duration_hr :: pyfloat
  target_audience :: string
  link :: string
  icon :: string
  description :: string
  learning_objectives :: "string list"
  recommended_reading :: string

record glossary_term =
  term_glossary :: string
  definition_glossary :: string
  formula :: "string option"

text \<open>A dictionary from category to terms, in insertion order.\<close>

type_synonym glossary = "(string \<times> glossary_term list) list"

subsection \<open>Effects: display calls, the log, exceptions\<close>

text \<open>An instance of Python's \<^verbatim>\<open>Exception\<close>, with the text \<^verbatim>\<open>str(e)\<close> gives.\<close>

datatype exn = Exception string

fun str_exn :: "exn \<Rightarrow> string" where
  "str_exn (Exception d) = d"

text \<open>
  The display primitives of the toolkit that the page calls, with the arguments the
  page passes (\<^verbatim>\<open>st.markdown\<close>: body and \<^verbatim>\<open>unsafe_allow_html\<close>;
  \<^verbatim>\<open>st.info\<close>, \<^verbatim>\<open>st.success\<close>: body and icon; \<^verbatim>\<open>st.container\<close>: border;
  \<^verbatim>\<open>st.expander\<close>: label and \<^verbatim>\<open>expanded\<close>; \<^verbatim>\<open>st.button\<close>: label, key, type,
  disabled, use_container_width, help).
\<close>

datatype ui_call =
    St_header string
  | St_markdown string bool
  | St_info string string
  | St_tabs "string list"
  | St_subheader string
  | St_warning string
  | St_container bool
  | St_columns "nat list"
  | St_caption string
  | St_button string string string bool bool string
  | St_expander string bool
  | St_success string string
  | St_write string
  | St_latex string
  | St_error string

text \<open>
  A \<^verbatim>\<open>with\<close> block places the calls of its body inside a container. A call is
  recorded with the containers around it, outermost first.
\<close>

datatype block =
    Events_tab | Training_tab | Glossary_tab
  | Container_block | Col1 | Col2 | Expander_block

type_synonym placed = "block list \<times> ui_call"

text \<open>\<^verbatim>\<open>logger.error(msg, exc_info=True)\<close>: the message and the exception being handled.\<close>

datatype log_entry = Logger_error string exn

record world =
  page :: "placed list"
  logged :: "log_entry list"

text \<open>
  The toolkit is an external collaborator: given what is on the page so far and the
  call, it accepts the call (\<open>None\<close>) or raises.
\<close>

type_synonym toolkit = "placed list \<Rightarrow> placed \<Rightarrow> exn option"

text \<open>A computation either raises or returns, and leaves a world behind.\<close>

type_synonym 'a run = "world \<Rightarrow> (exn + 'a) \<times> world"

definition then_run :: "'a run \<Rightarrow> ('a \<Rightarrow> 'b run) \<Rightarrow> 'b run" where
  "then_run m f w = (case m w of (Inl e, w') \<Rightarrow> (Inl e, w') | (Inr x, w') \<Rightarrow> f x w')"

text \<open>\<^verbatim>\<open>try: body except Exception as e: handler\<close>\<close>

definition try_except :: "unit run \<Rightarrow> (exn \<Rightarrow> unit run) \<Rightarrow> unit run" where
  "try_except body handler w =
     (case body w of (Inl e, w') \<Rightarrow> handler e w' | (Inr u, w') \<Rightarrow> (Inr u, w'))"

text \<open>
  Display calls issued one after the other: an accepted call is added to the page, the
  first call the toolkit refuses raises and the rest is not issued.
\<close>

fun issue :: "toolkit \<Rightarrow> placed list \<Rightarrow> unit run" where
  "issue st [] w = (Inr (), w)"
| "issue st (c # cs) w =
     (case st (page w) c of
        Some e \<Rightarrow> (Inl e, w)
      | None \<Rightarrow> issue st cs (w\<lparr>page := page w @ [c]\<rparr>))"

definition logger_error :: "string \<Rightarrow> exn \<Rightarrow> unit run" where
  "logger_error msg e w = (Inr (), w\<lparr>logged := logged w @ [Logger_error msg e]\<rparr>)"

subsection \<open>The static content\<close>

definition event_KZN_02 :: kaizen_event where
  \<open>event_KZN_02 = \<lparr>
     id_kaizen = ''KZN-02'',
     title_kaizen = ''SMED on Stamping Press P-101'',
     site = ''Andover, US'',
     date = ''2025-06-15'',
     problem_background = ''The Stamping Press P-101 has an average changeover time of 55 minutes, causing significant production downtime and limiting our ability to run smaller, more flexible batch sizes. This fails to meet the operational target of <15 minutes.'',
     analysis_and_countermeasures = [CHR 0x0A] @ ''            - **Analysis:** A Gemba walk and video analysis (based on Shigeo Shingo's SMED methodology) revealed that 70% of changeover activities were 'internal' (machine stopped). Key opportunities included pre-staging dies, standardizing tools, and eliminating manual adjustments.'' @ [CHR 0x0A] @ ''            - **Countermeasures Implemented:**'' @ [CHR 0x0A] @ ''                1.  **Converted Internal to External:** Designed a pre-heating cart for the next die set.'' @ [CHR 0x0A] @ ''                2.  **Standardized Clamping:** Replaced multi-size bolts with standardized, quick-release clamps.'' @ [CHR 0x0A] @ ''                3.  **Introduced Poka-Yoke:** Added alignment pins to the die-set to eliminate measurement adjustments.'' @ [CHR 0x0A] @ ''                4.  **Created Standard Work:** Developed a one-page visual guide for the 2-person changeover team.'' @ [CHR 0x0A] @ ''            '',
     quantified_results = ''Reduced average changeover time from 55 minutes to 9 minutes (an 83% reduction). This unlocked an additional 120 minutes of production capacity per day and enabled an immediate move to a 'pull' system for downstream assembly.'',
     key_insight = ''The biggest gains came not from operators working faster, but from eliminating entire steps of the process. True efficiency is in the design of the work itself, not the effort of the worker.''
   \<rparr>\<close>

definition event_KZN_01 :: kaizen_event where
  \<open>event_KZN_01 = \<lparr>
     id_kaizen = ''KZN-01'',
     title_kaizen = ''5S Implementation in Main Assembly Cell'',
     site = ''Eindhoven, NL'',
     date = ''2025-05-22'',
     problem_background = ''The Main Assembly cell was experiencing frequent micro-stoppages due to operators searching for tools, components, and fixtures. This introduced significant variability into the Takt time and was a source of operator frustration.'',
     analysis_and_countermeasures = [CHR 0x0A] @ ''            - **Analysis:** A spaghetti diagram of operator movement during a single shift revealed over 400 meters of unnecessary walking. The root cause was a lack of standardized locations for tools and materials.'' @ [CHR 0x0A] @ ''            - **Countermeasures Implemented (5S):**'' @ [CHR 0x0A] @ ''                1.  **Sort:** Red-tagged all non-essential items; 3 skids of clutter were removed.'' @ [CHR 0x0A] @ ''                2.  **Set in Order:** Created shadow boards for all hand tools. Implemented a color-coded bin system for fasteners.'' @ [CHR 0x0A] @ ''                3.  **Shine:** Conducted a deep clean and established a daily 5-minute cleaning schedule.'' @ [CHR 0x0A] @ ''                4.  **Standardize:** Laminated standard work instructions for tool placement and end-of-shift cleanup.'' @ [CHR 0x0A] @ ''                5.  **Sustain:** Added 5S adherence to the daily Gemba walk checklist and supervisor standard work.'' @ [CHR 0x0A] @ ''            '',
     quantified_results = ''Eliminated 95% of 'searching' time, reducing average assembly time by 15%. Operator-reported ergonomic strain and frustration decreased significantly, confirmed by a post-event survey (results redacted for privacy).'',
     key_insight = ''A clean and organized workplace is not about aesthetics; it is a prerequisite for quality and efficiency. When everything has a place, deviations from standard become immediately visible.''
   \<rparr>\<close>

definition event_KZN_04 :: kaizen_event where
  \<open>event_KZN_04 = \<lparr>
     id_kaizen = ''KZN-04'',
     title_kaizen = ''Invoice Processing Lead Time Reduction'',
     site = ''Corporate HQ'',
     date = ''2025-07-20'',
     problem_background = ''The average lead time from invoice receipt to payment approval is 18 days, causing late payment fees and straining supplier relationships. The goal was to reduce this to <5 days by eliminating non-value-added steps.'',
     analysis_and_countermeasures = [CHR 0x0A] @ ''            - **Analysis:** A detailed process map and swimlane diagram revealed significant 'waiting' waste. 80% of the lead time was spent in queues awaiting manual review, data entry into three separate systems, and manager approval.'' @ [CHR 0x0A] @ ''            - **Countermeasures Implemented:**'' @ [CHR 0x0A] @ ''                1.  **Eliminated Redundant Data Entry:** Utilized robotic process automation (RPA) to sync data between systems after initial entry.'' @ [CHR 0x0A] @ ''                2.  **Established Standard Work:** Created a clear policy for approval thresholds, empowering clerks to approve payments below $5,000 without manager sign-off.'' @ [CHR 0x0A] @ ''                3.  **Visual Management:** Implemented a digital Kanban board (To Do, In Progress, Done) for full visibility of the invoice workload.'' @ [CHR 0x0A] @ ''            '',
     quantified_results = ''Reduced average lead time from 18 days to 3.5 days. Eliminated all late payment fees in the first quarter post-implementation, saving an estimated $120k annually.'',
     key_insight = ''Lean principles are not just for the factory floor. Transactional processes are often filled with the most 'hidden' waste, offering huge opportunities for improvement.''
   \<rparr>\<close>

definition event_KZN_03 :: kaizen_event where
  \<open>event_KZN_03 = \<lparr>
     id_kaizen = ''KZN-03'',
     title_kaizen = ''Root Cause Analysis (RCA) of Intermittent Sensor Failures'',
     site = ''Shanghai, CN'',
     date = ''2025-07-01'',
     problem_background = ''The final test stage for the Affiniti Ultrasound system was experiencing a 4% failure rate due to intermittent 'Signal Lost' errors from a key pressure sensor, causing costly rework and diagnostic time.'',
     analysis_and_countermeasures = [CHR 0x0A] @ ''            - **Analysis:** An Ishikawa (Fishbone) diagram was used to brainstorm potential causes. The '5 Whys' technique was then applied to the most likely cause, 'Incorrect Connector Seating'.'' @ [CHR 0x0A] @ ''                1. **Why?** The connector was not fully seated.'' @ [CHR 0x0A] @ ''                2. **Why?** The operator could not get enough leverage.'' @ [CHR 0x0A] @ ''                3. **Why?** The access angle was awkward.'' @ [CHR 0x0A] @ ''                4. **Why?** A new bracket was installed in a previous update.'' @ [CHR 0x0A] @ ''                5. **Why? (Root Cause)** The bracket design did not account for tool clearance for the sensor connector.'' @ [CHR 0x0A] @ ''            - **Countermeasure Implemented:** A cross-functional team of engineering and manufacturing redesigned the bracket with an access cutout. A torque-limiting screwdriver with an audible 'click' was also introduced as a Poka-Yoke.'' @ [CHR 0x0A] @ ''            '',
     quantified_results = ''Reduced the specific 'Signal Lost' failure rate from 4% to 0.1% within one week of implementation. Rework costs were reduced by an estimated $250k annually.'',
     key_insight = ''Technical problems are often symptoms of process or design flaws. Persistently asking 'Why' moves the team beyond blaming components or people to fixing the underlying system.''
   \<rparr>\<close>

definition material_TRN_101 :: training_material where
  \<open>material_TRN_101 = \<lparr>
     id_training = ''TRN-101'',
     title_training = ''A3 Thinking: The Art of Problem Solving on a Single Page'',
     type_training = ''eLearning'',
     duration_hr = PyFloat 2 5,
     target_audience = ''Engineers, Team Leads, Managers'',
     link = ''#'',
     icon = [CHR 0xF0, CHR 0x9F, CHR 0x93, CHR 0x9D],
     description = ''This module explores the Toyota Production System's powerful A3 methodology, which structures problem-solving into a narrative format on a single sheet of A3-sized paper. It is a tool for mentorship, clear communication, and data-driven decision making.'',
     learning_objectives = [''Understand the 7 sections of a standard A3 Report.'',
        ''Frame a problem statement effectively.'',
        ''Use the PDCA (Plan-Do-Check-Act) cycle within the A3 framework.'',
        ''Visually communicate root cause analysis and countermeasures.''],
     recommended_reading = [CHR 0x27] @ ''Managing to Learn' by John Shook''
   \<rparr>\<close>

definition material_TRN_102 :: training_material where
  \<open>material_TRN_102 = \<lparr>
     id_training = ''TRN-102'',
     title_training = ''Statistical Process Control (SPC) Masterclass'',
     type_training = ''Workshop Slides'',
     duration_hr = PyFloat 8 0,
     target_audience = ''Quality Engineers, Process Technicians'',
     link = ''#'',
     icon = [CHR 0xF0, CHR 0x9F, CHR 0x93, CHR 0x8A],
     description = ''A deep dive into the principles of Dr. W. Edwards Deming and Walter Shewhart. This workshop provides the statistical foundation for understanding process variation, distinguishing between common and special causes, and using control charts to monitor and improve process stability.'',
     learning_objectives = [''Calculate control limits for I-MR, Xbar-R, and p-charts.'',
        ''Interpret control chart signals (e.g., Nelson Rules).'',
        ''Define and calculate process capability indices (Cp, Cpk).'',
        ''Understand the relationship between process control and process capability.''],
     recommended_reading = [CHR 0x27] @ ''Understanding Variation: The Key to Managing Chaos' by Donald J. Wheeler''
   \<rparr>\<close>

definition material_TRN_103 :: training_material where
  \<open>material_TRN_103 = \<lparr>
     id_training = ''TRN-103'',
     title_training = ''Leading Kaizen Events: A Facilitator's Guide'',
     type_training = ''PDF Guide'',
     duration_hr = PyFloat 4 0,
     target_audience = ''MBB, Black Belts, CI Leads'',
     link = ''#'',
     icon = [CHR 0xF0, CHR 0x9F, CHR 0xA4, CHR 0x9D],
     description = ''This guide provides a practical, step-by-step framework for planning, executing, and sustaining a successful week-long Kaizen event. It covers team selection, scoping, daily management, and follow-up activities to ensure that improvements are not only made but also maintained.'',
     learning_objectives = [''Develop a compelling Kaizen charter.'',
        ''Manage team dynamics and engage stakeholders.'',
        ''Facilitate brainstorming and root cause analysis sessions.'',
        ''Establish a 30-day follow-up plan to ensure sustainability.''],
     recommended_reading = [CHR 0x27] @ ''Kaizen: The Key to Japan's Competitive Success' by Masaaki Imai''
   \<rparr>\<close>

definition material_TRN_104 :: training_material where
  \<open>material_TRN_104 = \<lparr>
     id_training = ''TRN-104'',
     title_training = ''Failure Mode and Effects Analysis (FMEA)'',
     type_training = ''eLearning'',
     duration_hr = PyFloat 3 0,
     target_audience = ''Engineering, R&D, Quality'',
     link = ''#'',
     icon = [CHR 0xF0, CHR 0x9F, CHR 0x9B, CHR 0xA1, CHR 0xEF, CHR 0xB8, CHR 0x8F],
     description = ''Learn to proactively identify and mitigate risks in product and process design. This module teaches the systematic approach of FMEA to anticipate potential failures, assess their impact, and implement robust controls before problems reach the customer.'',
     learning_objectives = [''Distinguish between Design FMEAs and Process FMEAs.'',
        ''Calculate Risk Priority Numbers (RPN).'',
        ''Develop effective detection and prevention controls.'',
        ''Integrate FMEA into the product development lifecycle.''],
     recommended_reading = [CHR 0x27] @ ''The FMEA Pocket Handbook' by D. H. Stamatis''
   \<rparr>\<close>

definition material_TRN_105 :: training_material where
  \<open>material_TRN_105 = \<lparr>
     id_training = ''TRN-105'',
     title_training = ''Value Stream Mapping (VSM)'',
     type_training = ''Workshop Slides'',
     duration_hr = PyFloat 6 0,
     target_audience = ''Operations, CI Leads, Management'',
     link = ''#'',
     icon = [CHR 0xF0, CHR 0x9F, CHR 0x8C, CHR 0x8A],
     description = ''This workshop teaches you how to see the flow of value and, more importantly, the flow of waste. Learn to create current-state and future-state maps that visualize not just material flow, but information flow, to design truly lean systems from end to end.'',
     learning_objectives = [''Identify a value stream and its product family.'',
        ''Calculate key metrics like Lead Time, Process Time, and Process Cycle Efficiency.'',
        ''Draw current-state and future-state maps using standard iconography.'',
        ''Develop a Kaizen-based implementation plan.''],
     recommended_reading = [CHR 0x27] @ ''Learning to See' by Mike Rother and John Shook''
   \<rparr>\<close>

definition terms_Lean_Principles :: "glossary_term list" where
  \<open>terms_Lean_Principles = [
     \<lparr>term_glossary = ''Takt Time'',
      definition_glossary = ''The rate at which a finished product needs to be completed to meet customer demand. It is the 'heartbeat' of a lean system.'',
      formula = Some (''Takt'' @ [CHR 0x5C] @ '' Time = '' @ [CHR 0x5C] @ ''frac{'' @ [CHR 0x5C] @ ''text{Available Production Time per Day}}{'' @ [CHR 0x5C] @ ''text{Customer Demand per Day}}'')\<rparr>,
     \<lparr>term_glossary = ''Gemba ('' @ [CHR 0xE7, CHR 0x8F, CHR 0xBE, CHR 0xE5, CHR 0xA0, CHR 0xB4] @ '')'',
      definition_glossary = ''Japanese for 'the real place.' It refers to the location where value is created, such as the factory floor or a service desk.'',
      formula = None\<rparr>,
     \<lparr>term_glossary = ''Kaizen ('' @ [CHR 0xE6, CHR 0x94, CHR 0xB9, CHR 0xE5, CHR 0x96, CHR 0x84] @ '')'',
      definition_glossary = ''A strategy of 'Continuous Improvement' where small, ongoing, positive changes are made to a process. It emphasizes employee involvement and a culture of incremental enhancement.'',
      formula = None\<rparr>,
     \<lparr>term_glossary = ''Muda ('' @ [CHR 0xE7, CHR 0x84, CHR 0xA1, CHR 0xE9, CHR 0xA7, CHR 0x84] @ ''), Mura ('' @ [CHR 0xE6, CHR 0x96, CHR 0x91] @ ''), Muri ('' @ [CHR 0xE7, CHR 0x84, CHR 0xA1, CHR 0xE7, CHR 0x90, CHR 0x86] @ '')'',
      definition_glossary = ''The '3 M's' of waste in the Toyota Production System. **Muda:** Non-value-added waste. **Mura:** Unevenness or irregularity. **Muri:** Overburdening equipment or operators.'',
      formula = None\<rparr>,
     \<lparr>term_glossary = ''Muda ('' @ [CHR 0xE7, CHR 0x84, CHR 0xA1, CHR 0xE9, CHR 0xA7, CHR 0x84] @ '')'',
      definition_glossary = ''Japanese for 'waste.' It refers to any activity that consumes resources but creates no value for the customer. The 7 classic wastes are: Transport, Inventory, Motion, Waiting, Overproduction, Over-processing, and Defects (TIMWOOD).'',
      formula = None\<rparr>,
     \<lparr>term_glossary = ''Jidoka ('' @ [CHR 0xE8, CHR 0x87, CHR 0xAA, CHR 0xE5, CHR 0x83, CHR 0x8D, CHR 0xE5, CHR 0x8C, CHR 0x96] @ '')'',
      definition_glossary = ''Autonomation or 'automation with a human touch.' The principle of designing equipment to stop automatically and signal immediately when a problem occurs, preventing the mass production of defects.'',
      formula = None\<rparr>,
     \<lparr>term_glossary = ''Heijunka ('' @ [CHR 0xE5, CHR 0xB9, CHR 0xB3, CHR 0xE6, CHR 0xBA, CHR 0x96, CHR 0xE5, CHR 0x8C, CHR 0x96] @ '')'',
      definition_glossary = ''Production leveling. The process of smoothing the type and quantity of production over a fixed period. This reduces Mura (unevenness) and minimizes inventory.'',
      formula = None\<rparr>,
     \<lparr>term_glossary = ''Kanban ('' @ [CHR 0xE7, CHR 0x9C, CHR 0x8B, CHR 0xE6, CHR 0x9D, CHR 0xBF] @ '')'',
      definition_glossary = ''A scheduling system for lean manufacturing and just-in-time manufacturing (JIT). It is a visual signal (e.g., a card) that triggers an action, such as replenishing a part.'',
      formula = None\<rparr>,
     \<lparr>term_glossary = ''Poka-Yoke ('' @ [CHR 0xE3, CHR 0x83, CHR 0x9D, CHR 0xE3, CHR 0x82, CHR 0xAB, CHR 0xE3, CHR 0x83, CHR 0xA8, CHR 0xE3, CHR 0x82, CHR 0xB1] @ '')'',
      definition_glossary = ''A 'mistake-proofing' mechanism. Any technique in a process that helps to avoid errors by preventing, correcting, or drawing attention to them as they occur.'',
      formula = None\<rparr>,
     \<lparr>term_glossary = ''Value Stream Mapping (VSM)'',
      definition_glossary = ''A flowchart method used to visualize, analyze, and improve all the steps in a product delivery process, from raw materials to the customer. It helps identify and eliminate waste (Muda).'',
      formula = None\<rparr>,
     \<lparr>term_glossary = ''5S'',
      definition_glossary = ''A workplace organization method based on five Japanese words: Seiri (Sort), Seiton (Set in Order), Seis'' @ [CHR 0xC5, CHR 0x8D] @ '' (Shine), Seiketsu (Standardize), and Shitsuke (Sustain).'',
      formula = None\<rparr>
   ]\<close>

definition terms_Six_Sigma_Concepts :: "glossary_term list" where
  \<open>terms_Six_Sigma_Concepts = [
     \<lparr>term_glossary = ''DMAIC'',
      definition_glossary = ''The core data-driven improvement cycle: **D**efine the problem, **M**easure key aspects of the current process, **A**nalyze the data to investigate root causes, **I**mprove the process, and **C**ontrol the future state.'',
      formula = None\<rparr>,
     \<lparr>term_glossary = ''DPMO (Defects Per Million Opportunities)'',
      definition_glossary = ''A key metric for process performance. It represents the number of defects in a process per one million opportunities. A Six Sigma process aims for 3.4 DPMO.'',
      formula = Some (''DPMO = '' @ [CHR 0x5C] @ ''frac{'' @ [CHR 0x5C] @ ''text{Number of Defects}}{'' @ [CHR 0x5C] @ ''text{Number of Units} '' @ [CHR 0x5C] @ ''times '' @ [CHR 0x5C] @ ''text{Opportunities per Unit}} '' @ [CHR 0x5C] @ ''times 1,000,000'')\<rparr>,
     \<lparr>term_glossary = ''Process Capability (Cp)'',
      definition_glossary = ''Measures the potential capability of a process, assuming it is perfectly centered between the specification limits. It answers: 'Is the process spread narrow enough?'' @ [CHR 0x27],
      formula = Some (''C_p = '' @ [CHR 0x5C] @ ''frac{USL - LSL}{6'' @ [CHR 0x5C] @ ''sigma}'')\<rparr>,
     \<lparr>term_glossary = ''Process Capability (Cpk)'',
      definition_glossary = ''Measures the actual capability of a process, accounting for its centering. It represents the 'worst-case' side of the process distribution. A Cpk of >1.33 is often a minimum target.'',
      formula = Some (''C_{pk} = '' @ [CHR 0x5C] @ ''min'' @ [CHR 0x5C] @ ''left('' @ [CHR 0x5C] @ ''frac{USL - '' @ [CHR 0x5C] @ ''mu}{3'' @ [CHR 0x5C] @ ''sigma}, '' @ [CHR 0x5C] @ ''frac{'' @ [CHR 0x5C] @ ''mu - LSL}{3'' @ [CHR 0x5C] @ ''sigma}'' @ [CHR 0x5C] @ ''right)'')\<rparr>,
     \<lparr>term_glossary = ''COPQ (Cost of Poor Quality)'',
      definition_glossary = ''The total financial loss incurred from producing defective products or services. Includes internal failure costs (scrap, rework) and external failure costs (warranty claims, returns).'',
      formula = None\<rparr>,
     \<lparr>term_glossary = ''Voice of the Customer (VOC)'',
      definition_glossary = ''The process of capturing customer expectations, preferences, and aversions. The VOC is translated into Critical-to-Quality (CTQ) requirements for the process.'',
      formula = None\<rparr>,
     \<lparr>term_glossary = ''Rolled Throughput Yield (RTY)'',
      definition_glossary = ''The probability that a multi-step process will produce a defect-free unit. It is the product of the First Time Yields (FTY) of each process step.'',
      formula = Some (''RTY = FTY_1 '' @ [CHR 0x5C] @ ''times FTY_2 '' @ [CHR 0x5C] @ ''times '' @ [CHR 0x5C] @ ''dots '' @ [CHR 0x5C] @ ''times FTY_n'')\<rparr>
   ]\<close>

definition terms_Statistical_Analytical_Methods :: "glossary_term list" where
  \<open>terms_Statistical_Analytical_Methods = [
     \<lparr>term_glossary = ''Control Chart Limits'',
      definition_glossary = ''The horizontal lines on a control chart (UCL/LCL) that represent the 'voice of the process.' They are calculated from the process data and typically set at '' @ [CHR 0xC2, CHR 0xB1] @ ''3 standard deviations from the center line.'',
      formula = Some (''UCL/LCL = '' @ [CHR 0x5C] @ ''mu '' @ [CHR 0x5C] @ ''pm 3'' @ [CHR 0x5C] @ ''sigma'')\<rparr>,
     \<lparr>term_glossary = ''Hypothesis Testing'',
      definition_glossary = ''A formal statistical procedure used to accept or reject a claim about a process or population based on sample data. It involves a Null Hypothesis (H'' @ [CHR 0xE2, CHR 0x82, CHR 0x80] @ '', the status quo) and an Alternative Hypothesis (H'' @ [CHR 0xE2, CHR 0x82, CHR 0x90] @ '').'',
      formula = None\<rparr>,
     \<lparr>term_glossary = ''p-value'',
      definition_glossary = ''The probability of obtaining test results at least as extreme as the results actually observed, assuming the null hypothesis is correct. A small p-value (typically '' @ [CHR 0xE2, CHR 0x89, CHR 0xA4] @ '' 0.05) indicates strong evidence against the null hypothesis.'',
      formula = None\<rparr>,
     \<lparr>term_glossary = ''ANOVA (Analysis of Variance)'',
      definition_glossary = ''A statistical test used to determine whether there are any statistically significant differences between the means of two or more independent groups.'',
      formula = None\<rparr>,
     \<lparr>term_glossary = ''Confidence Interval'',
      definition_glossary = ''A range of values, derived from sample statistics, that is likely to contain the value of an unknown population parameter. A 95% confidence interval means we are 95% confident the true population mean lies within that range.'',
      formula = None\<rparr>,
     \<lparr>term_glossary = ''Gage R&R (Repeatability & Reproducibility)'',
      definition_glossary = ''A statistical study to evaluate the precision of a measurement system. **Repeatability** is the variation from the same operator using the same tool. **Reproducibility** is the variation between different operators using the same tool.'',
      formula = None\<rparr>,
     \<lparr>term_glossary = ''Regression Analysis'',
      definition_glossary = ''A set of statistical processes for estimating the relationships between a dependent variable (the 'output' or 'Y') and one or more independent variables (the 'inputs' or 'X's').'',
      formula = None\<rparr>,
     \<lparr>term_glossary = ''Design of Experiments (DOE)'',
      definition_glossary = ''A systematic method to determine the relationship between factors affecting a process and the output of that process. Used to find the optimal 'recipe' for a process with minimal experimental runs.'',
      formula = None\<rparr>
   ]\<close>

definition terms_AI_for_Operations :: "glossary_term list" where
  \<open>terms_AI_for_Operations = [
     \<lparr>term_glossary = ''Supervised Learning'',
      definition_glossary = ''A type of machine learning where the model learns from data that has been manually labeled with the correct outcomes. Analogy: Learning with an 'answer key.' (e.g., training a model on historical data of 'Pass' vs. 'Fail' parts).'',
      formula = None\<rparr>,
     \<lparr>term_glossary = ''Unsupervised Learning'',
      definition_glossary = ''A type of machine learning where the model works on its own to discover patterns and information in unlabeled data. Analogy: Finding hidden groups without an answer key. (e.g., K-Means clustering to find different failure modes).'',
      formula = None\<rparr>,
     \<lparr>term_glossary = ''Isolation Forest'',
      definition_glossary = ''An unsupervised algorithm excellent for anomaly detection. It works by 'isolating' outliers, which are easier to separate from the main data cluster.'',
      formula = None\<rparr>,
     \<lparr>term_glossary = ''Random Forest'',
      definition_glossary = ''A powerful supervised learning algorithm that is an 'ensemble' of many individual decision trees. It averages their predictions to produce a more accurate and stable result. Excellent for predictive quality tasks.'',
      formula = None\<rparr>,
     \<lparr>term_glossary = ''SHAP (SHapley Additive exPlanations)'',
      definition_glossary = ''A game-theoretic approach used to explain the output of any machine learning model. It connects optimal credit allocation with local explanations to understand *why* a model made a specific prediction for a single instance.'',
      formula = None\<rparr>
   ]\<close>


subsection \<open>The providers\<close>

text \<open>
  Each provider evaluates a list (or dictionary) display: it reads nothing, and every
  call builds its value afresh.
\<close>

definition get_overhauled_kaizen_data :: "kaizen_event list run" where
  "get_overhauled_kaizen_data w =
     (Inr [event_KZN_02, event_KZN_01, event_KZN_04, event_KZN_03], w)"

definition get_overhauled_training_data :: "training_material list run" where
  "get_overhauled_training_data w =
     (Inr [material_TRN_101, material_TRN_102, material_TRN_103, material_TRN_104,
           material_TRN_105], w)"

definition get_glossary_content :: "glossary run" where
  \<open>get_glossary_content w =
     (Inr [(''Lean Principles'', terms_Lean_Principles),
           (''Six Sigma Concepts'', terms_Six_Sigma_Concepts),
           (''Statistical & Analytical Methods'', terms_Statistical_Analytical_Methods),
           (''AI/M'' @ ''L for Operations'', terms_AI_for_Operations)], w)\<close>

subsection \<open>Library functions the page uses\<close>

text \<open>
  \<^verbatim>\<open>pd.DataFrame(kaizen_events).sort_values(by='date', ascending=False)\<close> followed by
  \<^verbatim>\<open>iterrows()\<close>: the rows in descending order of the string in column \<^verbatim>\<open>date\<close>.
  pandas sorts descending by reversing, sorting ascending and reversing again; rows
  with equal dates are taken here as a stable sort leaves them.
\<close>

definition sort_values_date_desc :: "kaizen_event list \<Rightarrow> kaizen_event list" where
  "sort_values_date_desc df = rev (sort_key date (rev df))"

text \<open>Decimal digits of a natural number, and \<^verbatim>\<open>str\<close> of a float.\<close>

fun str_nat :: "nat \<Rightarrow> string" where
  "str_nat n =
     (if n < 10 then [char_of (48 + n)]
      else str_nat (n div 10) @ [char_of (48 + n mod 10)])"

fun str_float :: "pyfloat \<Rightarrow> string" where
  "str_float (PyFloat w d) = str_nat w @ ''.'' @ str_nat d"

subsection \<open>The page renderer\<close>

text \<open>
  The block of one Kaizen event: the body of the loop over the sorted rows.
  \<open>caption_line\<close> is the f-string of its caption.
\<close>

definition caption_line :: "kaizen_event \<Rightarrow> string" where
  "caption_line event =
     ''**A3 ID:** '' @ id_kaizen event @ '' | **Site:** '' @ site event
       @ '' | **Completion Date:** '' @ date event"

definition event_block :: "kaizen_event \<Rightarrow> placed list" where
  \<open>event_block event =
     [([Events_tab], St_container True),
      ([Events_tab, Container_block], St_columns [3, 1]),
      ([Events_tab, Container_block, Col1],
         St_markdown (''#### '' @ title_kaizen event) False),
      ([Events_tab, Container_block, Col1],
         St_caption (caption_line event)),
      ([Events_tab, Container_block, Col2],
         St_button ''View Full A3 Report'' (''report_'' @ id_kaizen event) ''primary'' True True
           ''Full PDF report not available in this demo.''),
      ([Events_tab, Container_block], St_markdown ''**Problem Background:**'' False),
      ([Events_tab, Container_block], St_markdown (''> '' @ problem_background event) False),
      ([Events_tab, Container_block],
         St_expander ''**View Detailed Analysis & Countermeasures**'' False),
      ([Events_tab, Container_block, Expander_block],
         St_markdown (analysis_and_countermeasures event) False),
      ([Events_tab, Container_block, Expander_block],
         St_caption ''_Detailed schematics, raw data, and financial models are redacted from this view and available in the full A3 report._''),
      ([Events_tab, Container_block], St_markdown ''**Quantified Results:**'' False),
      ([Events_tab, Container_block],
         St_success (quantified_results event) [CHR 0xF0, CHR 0x9F, CHR 0x92, CHR 0xA1]),
      ([Events_tab, Container_block], St_markdown ''**Key Insight / Lesson Learned:**'' False),
      ([Events_tab, Container_block],
         St_info (key_insight event) [CHR 0xF0, CHR 0x9F, CHR 0x94, CHR 0xAC]),
      ([Events_tab], St_write '''')]\<close>

definition events_tab :: "kaizen_event list \<Rightarrow> placed list" where
  \<open>events_tab kaizen_events =
     [([Events_tab], St_subheader ''Implementing Kaizen: A Chronicle of Realized Improvements''),
      ([Events_tab], St_markdown ''Each event below is a testament to a team's dedication to making our work better. Review these A3 summaries to understand the 'Why' behind the change and to find inspiration for your own area.'' False)]
     @ (if kaizen_events = []
        then [([Events_tab], St_warning ''No Kaizen events have been logged in the data model.'')]
        else concat (map event_block (sort_values_date_desc kaizen_events)))\<close>

text \<open>
  The card of one training material: one HTML fragment, built by an f-string. The
  list items are a list comprehension over the learning objectives, joined.
\<close>

definition objective_items :: "string list \<Rightarrow> string list" where
  "objective_items objs = map (\<lambda>obj. ''<li>'' @ obj @ ''</li>'') objs"

definition card_html :: "training_material \<Rightarrow> string" where
  \<open>card_html material =
       [CHR 0x0A] @ ''                    <div style='' @ [CHR 0x22] @ ''border: 1px solid #c8c8c8; border-left: 6px solid #007bff; border-radius: 8px; padding: 20px; margin-bottom: 15px; box-shadow: 0 2px 4px rgba(0,0,0,0.1);'' @ [CHR 0x22] @ ''>'' @ [CHR 0x0A] @ ''                        <div style='' @ [CHR 0x22] @ ''display: flex; align-items: flex-start;'' @ [CHR 0x22] @ ''>'' @ [CHR 0x0A] @ ''                            <span style='' @ [CHR 0x22] @ ''font-size: 2.5em; margin-right: 25px; margin-top: 5px;'' @ [CHR 0x22] @ ''>''
     @ icon material
     @ ''</span>'' @ [CHR 0x0A] @ ''                            <div style='' @ [CHR 0x22] @ ''flex-grow: 1;'' @ [CHR 0x22] @ ''>'' @ [CHR 0x0A] @ ''                                <div style='' @ [CHR 0x22] @ ''font-weight: bold; font-size: 1.2em; margin-bottom: 5px;'' @ [CHR 0x22] @ ''>''
     @ title_training material
     @ ''</div>'' @ [CHR 0x0A] @ ''                                <div style='' @ [CHR 0x22] @ ''font-size: 0.9em; color: #555; margin-bottom: 15px;'' @ [CHR 0x22] @ ''>'' @ [CHR 0x0A] @ ''                                    <span><b>Type:</b> ''
     @ type_training material
     @ ''</span> |'' @ [CHR 0x0A] @ ''                                    <span><b>Est. Duration:</b> ''
     @ str_float (duration_hr material)
     @ '' hrs</span> |'' @ [CHR 0x0A] @ ''                                    <span><b>Primary Audience:</b> ''
     @ target_audience material
     @ ''</span>'' @ [CHR 0x0A] @ ''                                </div>'' @ [CHR 0x0A] @ ''                                <p style='' @ [CHR 0x22] @ ''font-size: 1em; color: #333; margin-bottom: 15px;'' @ [CHR 0x22] @ ''>''
     @ description material
     @ ''</p>'' @ [CHR 0x0A] @ ''                                <div style='' @ [CHR 0x22] @ ''background-color: #f8f9fa; padding: 10px; border-radius: 5px; font-size: 0.9em;'' @ [CHR 0x22] @ ''>'' @ [CHR 0x0A] @ ''                                    <b>Learning Objectives:</b>'' @ [CHR 0x0A] @ ''                                    <ul>''
     @ concat (objective_items (learning_objectives material))
     @ ''</ul>'' @ [CHR 0x0A] @ ''                                    <b>Recommended Reading:</b> <i>''
     @ recommended_reading material
     @ ''</i>'' @ [CHR 0x0A] @ ''                                </div>'' @ [CHR 0x0A] @ ''                                <a href='' @ [CHR 0x22]
     @ link material
     @ [CHR 0x22] @ '' target='' @ [CHR 0x22] @ ''_blank'' @ [CHR 0x22] @ '' style='' @ [CHR 0x22] @ ''display: inline-block; background-color: #007bff; color: white; padding: 8px 15px; margin-top: 15px; border-radius: 5px; text-decoration: none; font-weight: bold;'' @ [CHR 0x22] @ ''>Launch Module</a>'' @ [CHR 0x0A] @ ''                            </div>'' @ [CHR 0x0A] @ ''                        </div>'' @ [CHR 0x0A] @ ''                    </div>'' @ [CHR 0x0A] @ ''                    ''\<close>

definition training_card :: "training_material \<Rightarrow> placed list" where
  "training_card material = [([Training_tab], St_markdown (card_html material) True)]"

definition training_tab :: "training_material list \<Rightarrow> placed list" where
  \<open>training_tab training_materials =
     [([Training_tab], St_subheader ''Empowering Excellence Through Education''),
      ([Training_tab], St_markdown ''A commitment to quality begins with a commitment to learning. This curated library provides resources to develop skills at every level of the organization, from foundational principles to advanced statistical methods.'' False)]
     @ (if training_materials = []
        then [([Training_tab], St_warning ''No training materials are available in the data model.'')]
        else concat (map training_card training_materials))\<close>

text \<open>One glossary term, one category, and the glossary panel.\<close>

definition glossary_item :: "glossary_term \<Rightarrow> placed list" where
  \<open>glossary_item item =
     [([Glossary_tab, Expander_block], St_markdown (''**'' @ term_glossary item @ ''**'') False),
      ([Glossary_tab, Expander_block], St_markdown (''> '' @ definition_glossary item) False)]
     @ (case formula item of
          Some f \<Rightarrow> [([Glossary_tab, Expander_block], St_latex f)]
        | None \<Rightarrow> [])
     @ [([Glossary_tab, Expander_block], St_write '''')]\<close>

definition glossary_category :: "string \<times> glossary_term list \<Rightarrow> placed list" where
  \<open>glossary_category entry =
     (case entry of (category, terms) \<Rightarrow>
        ([Glossary_tab], St_expander (''**'' @ category @ ''**'') (category = ''Lean Principles''))
        # concat (map glossary_item terms))\<close>

definition glossary_tab :: "glossary \<Rightarrow> placed list" where
  \<open>glossary_tab glossary =
     [([Glossary_tab], St_subheader ''The Common Language of Continuous Improvement''),
      ([Glossary_tab], St_markdown ''Use this dictionary to understand the key terms, concepts, and methodologies that form the foundation of our operational excellence program. A shared vocabulary is essential for effective collaboration and problem-solving.'' False)]
     @ concat (map glossary_category glossary)\<close>

text \<open>The two calls issued before the \<^verbatim>\<open>try\<close> statement.\<close>

definition page_heading :: "placed list" where
  \<open>page_heading =
     [([], St_header ([CHR 0xF0, CHR 0x9F, CHR 0x8E, CHR 0x93] @ '' Continuous Improvement & Knowledge Hub'')),
      ([], St_markdown ([CHR 0x0A] @ ''    Welcome to the central nervous system of our learning organization. This hub is the catalyst for our Continuous Improvement (CI) culture.'' @ [CHR 0x0A] @ ''    Here, we **celebrate our successes**, **share our wisdom**, and **empower our teams** with the knowledge to drive process excellence.'' @ [CHR 0x0A] @ ''    '') False)]\<close>

text \<open>The display calls of the \<^verbatim>\<open>try\<close> body, once the three collections are loaded.\<close>

definition page_body :: "kaizen_event list \<Rightarrow> training_material list \<Rightarrow> glossary \<Rightarrow> placed list" where
  \<open>page_body kaizen_events training_materials glossary =
     [([], St_info ''Select a tab to review the A3 reports from past Kaizen events or to access our curated library of quality and CI training.'' [CHR 0xF0, CHR 0x9F, CHR 0xA7, CHR 0xA0]),
      ([], St_tabs [[CHR 0xF0, CHR 0x9F, CHR 0x8F, CHR 0x86] @ '' **Kaizen Event A3 Log**'',
                    [CHR 0xF0, CHR 0x9F, CHR 0x93, CHR 0x9A] @ '' **Training & Development Library**'',
                    [CHR 0xF0, CHR 0x9F, CHR 0x93, CHR 0x96] @ '' **Methodologies & Terminology Glossary**''])]
     @ events_tab kaizen_events
     @ training_tab training_materials
     @ glossary_tab glossary\<close>

text \<open>The \<^verbatim>\<open>except Exception as e\<close> handler.\<close>

definition on_exception :: "toolkit \<Rightarrow> exn \<Rightarrow> unit run" where
  \<open>on_exception st e =
     then_run
       (issue st [([], St_error (''An error occurred while rendering the Kaizen & Training Hub: '' @ str_exn e))])
       (\<lambda>_. logger_error (''Failed to render kaizen and training hub: '' @ str_exn e) e)\<close>

text \<open>
  The body of \<^verbatim>\<open>render_kaizen_training_hub\<close>, with the toolkit and the three
  provider functions it names as parameters (Python looks the names up in the module
  when the call is made). The session state handle \<open>ssm\<close> is not used.
  \<open>try_body\<close> is what stands between \<^verbatim>\<open>try:\<close> and \<^verbatim>\<open>except\<close>.
\<close>

definition try_body ::
  "toolkit \<Rightarrow> kaizen_event list run \<Rightarrow> training_material list run \<Rightarrow> glossary run
     \<Rightarrow> unit run" where
  "try_body st kaizen_data training_data glossary_content =
     then_run kaizen_data (\<lambda>kaizen_events.
     then_run training_data (\<lambda>training_materials.
     then_run glossary_content (\<lambda>glossary.
       issue st (page_body kaizen_events training_materials glossary))))"

definition render_with ::
  "toolkit \<Rightarrow> kaizen_event list run \<Rightarrow> training_material list run \<Rightarrow> glossary run
     \<Rightarrow> 'ssm \<Rightarrow> unit run" where
  "render_with st kaizen_data training_data glossary_content ssm =
     then_run (issue st page_heading) (\<lambda>_.
       try_except (try_body st kaizen_data training_data glossary_content) (on_exception st))"

definition render_kaizen_training_hub :: "toolkit \<Rightarrow> 'ssm \<Rightarrow> unit run" where
  "render_kaizen_training_hub st ssm =
     render_with st get_overhauled_kaizen_data get_overhauled_training_data
       get_glossary_content ssm"

text \<open>
  A toolkit that accepts every call, the world before anything is shown, a provider
  that returns a given collection and one that raises.
\<close>

definition accepting :: toolkit where
  "accepting shown c = None"

definition blank :: world where
  "blank = \<lparr>page = [], logged = []\<rparr>"

definition returns :: "'a \<Rightarrow> 'a run" where
  "returns v w = (Inr v, w)"






subsection \<open>Reading the page\<close>

text \<open>What a viewer finds on the page: the calls inside one tab, and calls of one kind.\<close>

fun in_panel :: "block \<Rightarrow> placed \<Rightarrow> bool" where
  "in_panel b ([], c) = False"
| "in_panel b (x # p, c) = (x = b)"

definition panel :: "block \<Rightarrow> placed list \<Rightarrow> placed list" where
  "panel b shown = filter (in_panel b) shown"

definition is_warning :: "placed \<Rightarrow> bool" where
  "is_warning c = (case snd c of St_warning t \<Rightarrow> True | _ \<Rightarrow> False)"



fun gather :: "('a \<Rightarrow> 'b list) \<Rightarrow> 'a list \<Rightarrow> 'b list" where
  "gather f [] = []"
| "gather f (x # xs) = f x @ gather f xs"

text \<open>The caption line of an event block: it stands in the first column of a container.\<close>

definition event_caption :: "placed \<Rightarrow> string list" where
  "event_caption c =
     (case snd c of
        St_caption t \<Rightarrow> if fst c = [Events_tab, Container_block, Col1] then [t] else []
      | _ \<Rightarrow> [])"

text \<open>The formula of a formula-rendering call.\<close>

definition latex_call :: "placed \<Rightarrow> string list" where
  "latex_call c = (case snd c of St_latex f \<Rightarrow> [f] | _ \<Rightarrow> [])"

text \<open>The key of a button.\<close>

definition button_key :: "placed \<Rightarrow> string list" where
  "button_key c = (case snd c of St_button l k t d u h \<Rightarrow> [k] | _ \<Rightarrow> [])"

text \<open>A collapsible section of the glossary tab: its label and whether it starts expanded.\<close>

definition glossary_section :: "placed \<Rightarrow> (string \<times> bool) list" where
  "glossary_section c =
     (case snd c of
        St_expander l x \<Rightarrow> if fst c = [Glossary_tab] then [(l, x)] else []
      | _ \<Rightarrow> [])"


subsection \<open>Calendar dates\<close>

text \<open>
  The page never reads a date as a date. To say what chronological order is, the date
  strings are read here as year, month and day: three decimal numbers separated by
  hyphens, with or without leading zeros. Dates are compared as triples, year first.
\<close>

definition is_digit :: "char \<Rightarrow> bool" where
  "is_digit c = (CHR ''0'' \<le> c \<and> c \<le> CHR ''9'')"

definition digit_val :: "char \<Rightarrow> nat" where
  "digit_val c = of_char c - 48"

definition dec :: "string \<Rightarrow> nat" where
  "dec ds = foldl (\<lambda>n c. 10 * n + digit_val c) 0 ds"

fun fields :: "string \<Rightarrow> string list" where
  "fields [] = [[]]"
| "fields (c # s) =
     (if c = CHR ''-'' then [] # fields s
      else (case fields s of f # fs \<Rightarrow> (c # f) # fs | [] \<Rightarrow> [[c]]))"

definition number :: "string \<Rightarrow> nat option" where
  "number f = (if f \<noteq> [] \<and> list_all is_digit f then Some (dec f) else None)"

definition calendar :: "string \<Rightarrow> (nat \<times> nat \<times> nat) option" where
  "calendar s =
     (case fields s of
        [y, m, d] \<Rightarrow>
          (case (number y, number m, number d) of
             (Some a, Some b, Some c) \<Rightarrow> Some (a, b, c)
           | _ \<Rightarrow> None)
      | _ \<Rightarrow> None)"

text \<open>Zero-padded \<^verbatim>\<open>YYYY-MM-DD\<close>: ten characters, digits around two hyphens.\<close>

definition iso_date :: "string \<Rightarrow> bool" where
  "iso_date s =
     (length s = 10 \<and> list_all is_digit (take 4 s) \<and> s ! 4 = CHR ''-''
      \<and> list_all is_digit (take 2 (drop 5 s)) \<and> s ! 7 = CHR ''-''
      \<and> list_all is_digit (drop 8 s))"

text \<open>
  \<open>earlier s t\<close>: both strings read as dates, and the date of \<open>s\<close> comes before that
  of \<open>t\<close>.
\<close>

definition earlier :: "string \<Rightarrow> string \<Rightarrow> bool" where
  "earlier s t =
     (case (calendar s, calendar t) of
        (Some a, Some b) \<Rightarrow> a < b
      | _ \<Rightarrow> False)"

text \<open>An event record with a given date and identifier, its other fields empty.\<close>

definition dated :: "string \<Rightarrow> string \<Rightarrow> kaizen_event" where
  "dated i d =
     \<lparr>id_kaizen = i, title_kaizen = [], site = [], date = d, problem_background = [],
      analysis_and_countermeasures = [], quantified_results = [], key_insight = []\<rparr>"

section \<open>Properties\<close>

subsection \<open>Running the page\<close>

text \<open>
  With a toolkit that accepts every call, and providers that return, the page is the
  heading followed by the body; nothing is logged.
\<close>

lemma issue_accepting: "issue accepting cs w = (Inr (), w\<lparr>page := page w @ cs\<rparr>)"
  by (induction cs arbitrary: w) (simp_all add: accepting_def)

lemma issue_returns:
  "issue st cs w = (Inr u, w1) \<Longrightarrow> w1 = w\<lparr>page := page w @ cs\<rparr>"
proof (induction cs arbitrary: w)
  case Nil
  then show ?case by simp
next
  case (Cons c cs)
  from Cons.prems have acc: "st (page w) c = None"
    by (cases "st (page w) c") simp_all
  with Cons.prems have "issue st cs (w\<lparr>page := page w @ [c]\<rparr>) = (Inr u, w1)" by simp
  from Cons.IH[OF this] show ?case by simp
qed

lemma render_with_accepting:
  "render_with accepting (returns evs) (returns trs) (returns gl) ssm w =
     (Inr (), w\<lparr>page := page w @ page_heading @ page_body evs trs gl\<rparr>)"
  by (simp add: render_with_def try_body_def then_run_def try_except_def returns_def
      issue_accepting)

lemma page_accepting:
  "page (snd (render_with accepting (returns evs) (returns trs) (returns gl) ssm blank)) =
     page_heading @ page_body evs trs gl"
  by (simp add: render_with_accepting blank_def)

lemma providers_return:
  "get_overhauled_kaizen_data = returns [event_KZN_02, event_KZN_01, event_KZN_04, event_KZN_03]"
  "get_overhauled_training_data =
     returns [material_TRN_101, material_TRN_102, material_TRN_103, material_TRN_104, material_TRN_105]"
  \<open>get_glossary_content = returns [(''Lean Principles'', terms_Lean_Principles),
           (''Six Sigma Concepts'', terms_Six_Sigma_Concepts),
           (''Statistical & Analytical Methods'', terms_Statistical_Analytical_Methods),
           (''AI/M'' @ ''L for Operations'', terms_AI_for_Operations)]\<close>
  by (rule ext, simp add: get_overhauled_kaizen_data_def get_overhauled_training_data_def get_glossary_content_def returns_def)+

lemma page_hub:
  \<open>page (snd (render_kaizen_training_hub accepting ssm blank)) =
     page_heading @ page_body [event_KZN_02, event_KZN_01, event_KZN_04, event_KZN_03]
       [material_TRN_101, material_TRN_102, material_TRN_103, material_TRN_104, material_TRN_105]
       [(''Lean Principles'', terms_Lean_Principles),
        (''Six Sigma Concepts'', terms_Six_Sigma_Concepts),
        (''Statistical & Analytical Methods'', terms_Statistical_Analytical_Methods),
        (''AI/M'' @ ''L for Operations'', terms_AI_for_Operations)]\<close>
  unfolding render_kaizen_training_hub_def providers_return by (rule page_accepting)

subsection \<open>The sort by date\<close>

lemma event_fields:
  "id_kaizen event_KZN_02 = ''KZN-02''" "date event_KZN_02 = ''2025-06-15''" "site event_KZN_02 = ''Andover, US''"
  "id_kaizen event_KZN_01 = ''KZN-01''" "date event_KZN_01 = ''2025-05-22''" "site event_KZN_01 = ''Eindhoven, NL''"
  "id_kaizen event_KZN_04 = ''KZN-04''" "date event_KZN_04 = ''2025-07-20''" "site event_KZN_04 = ''Corporate HQ''"
  "id_kaizen event_KZN_03 = ''KZN-03''" "date event_KZN_03 = ''2025-07-01''" "site event_KZN_03 = ''Shanghai, CN''"
  by (simp_all add: event_KZN_02_def event_KZN_01_def event_KZN_04_def event_KZN_03_def)

lemma sorted_sample:
  "sort_values_date_desc [event_KZN_02, event_KZN_01, event_KZN_04, event_KZN_03]
     = [event_KZN_04, event_KZN_03, event_KZN_02, event_KZN_01]"
  by (simp add: sort_values_date_desc_def event_fields)

subsection \<open>Gathering calls of one kind\<close>

lemma gather_append: "gather f (xs @ ys) = gather f xs @ gather f ys"
  by (induction xs) simp_all

lemma gather_concat_map: "gather f (concat (map g xs)) = gather (\<lambda>x. gather f (g x)) xs"
  by (induction xs) (simp_all add: gather_append)

lemma gather_single: "gather (\<lambda>x. [h x]) xs = map h xs"
  by (induction xs) simp_all

lemma gather_nil: "gather (\<lambda>x. []) xs = []"
  by (induction xs) simp_all

lemmas gather_simps = gather_append gather_concat_map gather_single gather_nil

lemma sort_values_Nil: "sort_values_date_desc [] = []"
  by (simp add: sort_values_date_desc_def)


lemma sort_values_descending:
  "sorted_wrt (\<lambda>a b. date b \<le> date a) (sort_values_date_desc evs)"
proof -
  have "sorted (map date (sort_key date (rev evs)))" by (rule sorted_sort_key)
  then have "sorted_wrt (\<lambda>a b. date a \<le> date b) (sort_key date (rev evs))"
    by (simp add: sorted_map)
  then show ?thesis
    by (simp add: sort_values_date_desc_def sorted_wrt_rev)
qed


subsection \<open>What the tabs hold\<close>

lemma caption_event_block: "gather event_caption (event_block e) = [caption_line e]"
  by (simp add: event_block_def event_caption_def)

lemma caption_events_tab:
  "gather event_caption (events_tab evs) = map caption_line (sort_values_date_desc evs)"
  by (simp add: events_tab_def gather_simps caption_event_block event_caption_def sort_values_Nil)

lemma caption_training_tab: "gather event_caption (training_tab trs) = []"
  by (simp add: training_tab_def training_card_def gather_simps event_caption_def)

lemma caption_glossary_item: "gather event_caption (glossary_item i) = []"
  by (simp add: glossary_item_def event_caption_def split: option.splits)

lemma caption_glossary_category: "gather event_caption (glossary_category c) = []"
  by (cases c) (simp add: glossary_category_def gather_simps caption_glossary_item event_caption_def)

lemma caption_glossary_tab: "gather event_caption (glossary_tab gl) = []"
  by (simp add: glossary_tab_def gather_simps caption_glossary_category event_caption_def)

lemma caption_page:
  "gather event_caption (page_heading @ page_body evs trs gl) =
     map caption_line (sort_values_date_desc evs)"
  by (simp add: page_heading_def page_body_def gather_append caption_events_tab caption_training_tab
      caption_glossary_tab event_caption_def)


lemma key_event_block: "gather button_key (event_block e) = [''report_'' @ id_kaizen e]"
  by (simp add: event_block_def button_key_def)

lemma key_events_tab:
  "gather button_key (events_tab evs) = map (\<lambda>e. ''report_'' @ id_kaizen e) (sort_values_date_desc evs)"
  by (simp add: events_tab_def gather_simps key_event_block button_key_def sort_values_Nil)

lemma key_training_tab: "gather button_key (training_tab trs) = []"
  by (simp add: training_tab_def training_card_def gather_simps button_key_def)

lemma key_glossary_item: "gather button_key (glossary_item i) = []"
  by (simp add: glossary_item_def button_key_def split: option.splits)

lemma key_glossary_category: "gather button_key (glossary_category c) = []"
  by (cases c) (simp add: glossary_category_def gather_simps key_glossary_item button_key_def)

lemma key_glossary_tab: "gather button_key (glossary_tab gl) = []"
  by (simp add: glossary_tab_def gather_simps key_glossary_category button_key_def)

lemma key_page:
  "gather button_key (page_heading @ page_body evs trs gl) =
     map (\<lambda>e. ''report_'' @ id_kaizen e) (sort_values_date_desc evs)"
  by (simp add: page_heading_def page_body_def gather_append key_events_tab key_training_tab
      key_glossary_tab button_key_def)

subsection \<open>Order of the event log\<close>



subsection \<open>The providers\<close>

text \<open>
  Claim C9. The Kaizen-event provider takes no input and, in every world, returns the
  same ordered, non-empty list of four events without raising and without changing the
  world. Their identifiers are pairwise distinct, in the list, in the sorted rows and
  in the keys of the buttons the page shows.
\<close>

theorem kaizen_provider_contract:
  "\<exists>evs. (\<forall>w. get_overhauled_kaizen_data w = (Inr evs, w))
     \<and> evs \<noteq> []
     \<and> map id_kaizen evs = [''KZN-02'', ''KZN-01'', ''KZN-04'', ''KZN-03'']
     \<and> distinct (map id_kaizen evs)
     \<and> distinct (map id_kaizen (sort_values_date_desc evs))
     \<and> distinct (gather button_key (page (snd (render_kaizen_training_hub accepting ssm blank))))"
proof (intro exI[of _ "[event_KZN_02, event_KZN_01, event_KZN_04, event_KZN_03]"] conjI allI)
  fix w
  show "get_overhauled_kaizen_data w = (Inr [event_KZN_02, event_KZN_01, event_KZN_04, event_KZN_03], w)"
    by (simp add: get_overhauled_kaizen_data_def)
  show "[event_KZN_02, event_KZN_01, event_KZN_04, event_KZN_03] \<noteq> []" by simp
  show ids: "map id_kaizen [event_KZN_02, event_KZN_01, event_KZN_04, event_KZN_03]
      = [''KZN-02'', ''KZN-01'', ''KZN-04'', ''KZN-03'']"
    by (simp add: event_fields)
  show "distinct (map id_kaizen [event_KZN_02, event_KZN_01, event_KZN_04, event_KZN_03])"
    unfolding ids by simp
  show "distinct (map id_kaizen (sort_values_date_desc [event_KZN_02, event_KZN_01, event_KZN_04, event_KZN_03]))"
    by (simp add: sorted_sample event_fields)
  have "gather button_key (page (snd (render_kaizen_training_hub accepting ssm blank)))
      = [''report_KZN-04'', ''report_KZN-03'', ''report_KZN-02'', ''report_KZN-01'']"
    by (simp only: page_hub key_page sorted_sample list.map event_fields append.simps)
  then show "distinct (gather button_key (page (snd (render_kaizen_training_hub accepting ssm blank))))"
    by simp
qed

text \<open>
  Claim C6. Each of the three providers returns one fixed collection whatever the world
  it is called in, and leaves the world as it was; two calls in succession return equal
  collections.
\<close>

theorem providers_deterministic:
  "(\<exists>evs. \<forall>w. get_overhauled_kaizen_data w = (Inr evs, w))
   \<and> (\<exists>trs. \<forall>w. get_overhauled_training_data w = (Inr trs, w))
   \<and> (\<exists>gl. \<forall>w. get_glossary_content w = (Inr gl, w))
   \<and> then_run get_overhauled_kaizen_data (\<lambda>a. then_run get_overhauled_kaizen_data (\<lambda>b. returns (a = b))) w
        = (Inr True, w)
   \<and> then_run get_overhauled_training_data (\<lambda>a. then_run get_overhauled_training_data (\<lambda>b. returns (a = b))) w
        = (Inr True, w)
   \<and> then_run get_glossary_content (\<lambda>a. then_run get_glossary_content (\<lambda>b. returns (a = b))) w
        = (Inr True, w)"
  by (simp add: providers_return returns_def then_run_def)

lemma section_event_block: "gather glossary_section (event_block e) = []"
  by (simp add: event_block_def glossary_section_def)

lemma section_events_tab: "gather glossary_section (events_tab evs) = []"
  by (simp add: events_tab_def gather_simps section_event_block glossary_section_def)

lemma section_training_tab: "gather glossary_section (training_tab trs) = []"
  by (simp add: training_tab_def training_card_def gather_simps glossary_section_def)

lemma section_glossary_item: "gather glossary_section (glossary_item i) = []"
  by (simp add: glossary_item_def glossary_section_def split: option.splits)

lemma section_glossary_category:
  "gather glossary_section (glossary_category c) =
     [(''**'' @ fst c @ ''**'', fst c = ''Lean Principles'')]"
  by (cases c) (simp add: glossary_category_def gather_simps section_glossary_item glossary_section_def)

lemma section_glossary_tab:
  "gather glossary_section (glossary_tab gl) =
     map (\<lambda>c. (''**'' @ fst c @ ''**'', fst c = ''Lean Principles'')) gl"
  by (simp add: glossary_tab_def gather_simps section_glossary_category glossary_section_def)

lemma section_page:
  "gather glossary_section (page_heading @ page_body evs trs gl) =
     map (\<lambda>c. (''**'' @ fst c @ ''**'', fst c = ''Lean Principles'')) gl"
  by (simp add: page_heading_def page_body_def gather_append section_events_tab section_training_tab
      section_glossary_tab glossary_section_def)

subsection \<open>Sections of the glossary\<close>

text \<open>
  Claim C7. The glossary tab of the rendered page holds one collapsible section per
  category, in the order of the dictionary: Lean Principles, expanded, then Six Sigma
  Concepts, Statistical & Analytical Methods and the category on AI for operations,
  each collapsed. So the first section is expanded and the others are not. (A section is
  expanded when its category is named Lean Principles, which is the first category of
  the glossary.)
\<close>

theorem glossary_sections_expanded_by_default:
  \<open>gather glossary_section (page (snd (render_kaizen_training_hub accepting ssm blank))) =
     [(''**Lean Principles**'', True),
      (''**Six Sigma Concepts**'', False),
      (''**Statistical & Analytical Methods**'', False),
      (''**AI/M'' @ ''L for Operations**'', False)]
   \<and> gather glossary_section
        (page (snd (render_with accepting (returns evs) (returns trs) (returns gl) ssm blank)))
     = map (\<lambda>c. (''**'' @ fst c @ ''**'', fst c = ''Lean Principles'')) gl\<close>
  by (simp add: page_hub page_accepting section_page)

subsection \<open>Cards of the training library\<close>
















lemma latex_event_block: "gather latex_call (event_block e) = []"
  by (simp add: event_block_def latex_call_def)

lemma latex_events_tab: "gather latex_call (events_tab evs) = []"
  by (simp add: events_tab_def gather_simps latex_event_block latex_call_def)

lemma latex_training_tab: "gather latex_call (training_tab trs) = []"
  by (simp add: training_tab_def training_card_def gather_simps latex_call_def)

lemma latex_glossary_item:
  "gather latex_call (glossary_item i) = (case formula i of Some f \<Rightarrow> [f] | None \<Rightarrow> [])"
  by (simp add: glossary_item_def latex_call_def split: option.splits)

lemma latex_glossary_category:
  "gather latex_call (glossary_category c) =
     gather (\<lambda>i. case formula i of Some f \<Rightarrow> [f] | None \<Rightarrow> []) (snd c)"
  by (cases c) (simp add: glossary_category_def gather_append gather_concat_map latex_glossary_item latex_call_def)

lemma latex_glossary_tab:
  "gather latex_call (glossary_tab gl) =
     gather (\<lambda>c. gather (\<lambda>i. case formula i of Some f \<Rightarrow> [f] | None \<Rightarrow> []) (snd c)) gl"
  by (simp add: glossary_tab_def gather_append gather_concat_map latex_glossary_category latex_call_def)

lemma latex_page:
  "gather latex_call (page_heading @ page_body evs trs gl) =
     gather (\<lambda>c. gather (\<lambda>i. case formula i of Some f \<Rightarrow> [f] | None \<Rightarrow> []) (snd c)) gl"
  by (simp add: page_heading_def page_body_def gather_append latex_events_tab latex_training_tab
      latex_glossary_tab latex_call_def)

subsection \<open>Formulas of the glossary\<close>

text \<open>
  Claim C5. A glossary term is rendered as its name, its definition, a formula-rendering
  call when the record has a formula, and a spacer: with a formula there is exactly one
  formula-rendering call, showing that formula, and without one there is none. On the
  page, the formula-rendering calls are those of the terms that have a formula, in
  order.
\<close>

theorem formula_rendered_when_present:
  \<open>glossary_item item =
     (case formula item of
        Some f \<Rightarrow>
          [([Glossary_tab, Expander_block], St_markdown (''**'' @ term_glossary item @ ''**'') False),
           ([Glossary_tab, Expander_block], St_markdown (''> '' @ definition_glossary item) False),
           ([Glossary_tab, Expander_block], St_latex f),
           ([Glossary_tab, Expander_block], St_write '''')]
      | None \<Rightarrow>
          [([Glossary_tab, Expander_block], St_markdown (''**'' @ term_glossary item @ ''**'') False),
           ([Glossary_tab, Expander_block], St_markdown (''> '' @ definition_glossary item) False),
           ([Glossary_tab, Expander_block], St_write '''')])
   \<and> gather latex_call (glossary_item item) = (case formula item of Some f \<Rightarrow> [f] | None \<Rightarrow> [])
   \<and> gather latex_call
        (page (snd (render_with accepting (returns evs) (returns trs) (returns gl) ssm blank)))
     = gather (\<lambda>c. gather (\<lambda>i. case formula i of Some f \<Rightarrow> [f] | None \<Rightarrow> []) (snd c)) gl\<close>
  by (simp add: page_accepting latex_page latex_glossary_item)
     (simp add: glossary_item_def split: option.splits)

subsection \<open>Empty collections\<close>

lemma panel_append: "panel b (xs @ ys) = panel b xs @ panel b ys"
  by (simp add: panel_def)

lemma panel_same: "\<forall>c \<in> set xs. in_panel b c \<Longrightarrow> panel b xs = xs"
  by (simp add: panel_def)

lemma in_panel_unique: "in_panel b c \<Longrightarrow> in_panel b' c \<Longrightarrow> b = b'"
  by (cases c, cases "fst c") auto

lemma panel_other: "\<forall>c \<in> set xs. in_panel b c \<Longrightarrow> b' \<noteq> b \<Longrightarrow> panel b' xs = []"
  unfolding panel_def filter_empty_conv using in_panel_unique by blast

lemma events_tab_in_panel: "\<forall>c \<in> set (events_tab evs). in_panel Events_tab c"
  by (auto simp: events_tab_def event_block_def)

lemma training_tab_in_panel: "\<forall>c \<in> set (training_tab trs). in_panel Training_tab c"
  by (auto simp: training_tab_def training_card_def)

lemma glossary_tab_in_panel: "\<forall>c \<in> set (glossary_tab gl). in_panel Glossary_tab c"
  by (auto simp: glossary_tab_def glossary_category_def glossary_item_def split: option.splits)

lemma panel_tabs:
  "panel Events_tab (events_tab evs) = events_tab evs"
  "panel Events_tab (training_tab trs) = []"
  "panel Events_tab (glossary_tab gl) = []"
  "panel Training_tab (events_tab evs) = []"
  "panel Training_tab (training_tab trs) = training_tab trs"
  "panel Training_tab (glossary_tab gl) = []"
  "panel Glossary_tab (events_tab evs) = []"
  "panel Glossary_tab (training_tab trs) = []"
  "panel Glossary_tab (glossary_tab gl) = glossary_tab gl"
proof -
  show "panel Events_tab (events_tab evs) = events_tab evs"
    by (rule panel_same[OF events_tab_in_panel])
  show "panel Training_tab (training_tab trs) = training_tab trs"
    by (rule panel_same[OF training_tab_in_panel])
  show "panel Glossary_tab (glossary_tab gl) = glossary_tab gl"
    by (rule panel_same[OF glossary_tab_in_panel])
  show "panel Events_tab (training_tab trs) = []"
    by (rule panel_other[OF training_tab_in_panel]) simp
  show "panel Events_tab (glossary_tab gl) = []"
    by (rule panel_other[OF glossary_tab_in_panel]) simp
  show "panel Training_tab (events_tab evs) = []"
    by (rule panel_other[OF events_tab_in_panel]) simp
  show "panel Training_tab (glossary_tab gl) = []"
    by (rule panel_other[OF glossary_tab_in_panel]) simp
  show "panel Glossary_tab (events_tab evs) = []"
    by (rule panel_other[OF events_tab_in_panel]) simp
  show "panel Glossary_tab (training_tab trs) = []"
    by (rule panel_other[OF training_tab_in_panel]) simp
qed

lemma panel_page:
  "panel Events_tab (page_heading @ page_body evs trs gl) = events_tab evs"
  "panel Training_tab (page_heading @ page_body evs trs gl) = training_tab trs"
  "panel Glossary_tab (page_heading @ page_body evs trs gl) = glossary_tab gl"
  unfolding page_body_def panel_append panel_tabs
  by (simp_all add: page_heading_def panel_def)

text \<open>
  With no Kaizen events, the event log holds its two title lines and a warning, and no
  event block; with no training materials, the training library likewise.
\<close>

lemma empty_events_or_training_warned:
  \<open>panel Events_tab
     (page (snd (render_with accepting (returns []) (returns trs) (returns gl) ssm blank))) =
     [([Events_tab], St_subheader ''Implementing Kaizen: A Chronicle of Realized Improvements''),
      ([Events_tab], St_markdown ''Each event below is a testament to a team's dedication to making our work better. Review these A3 summaries to understand the 'Why' behind the change and to find inspiration for your own area.'' False),
      ([Events_tab], St_warning ''No Kaizen events have been logged in the data model.'')]\<close>
  \<open>panel Training_tab
     (page (snd (render_with accepting (returns evs) (returns []) (returns gl) ssm blank))) =
     [([Training_tab], St_subheader ''Empowering Excellence Through Education''),
      ([Training_tab], St_markdown ''A commitment to quality begins with a commitment to learning. This curated library provides resources to develop skills at every level of the organization, from foundational principles to advanced statistical methods.'' False),
      ([Training_tab], St_warning ''No training materials are available in the data model.'')]\<close>
  by (simp_all add: page_accepting panel_page events_tab_def training_tab_def)

text \<open>
  Claim C2, at an empty glossary. The glossary tab then holds its two title lines and
  nothing else: no section and no term, and no warning either. The event log and the
  training library warn when their collection is empty; the glossary tab has no such
  test.
\<close>

theorem empty_glossary_shows_no_warning:
  \<open>panel Glossary_tab
     (page (snd (render_with accepting (returns evs) (returns trs) (returns []) ssm blank))) =
     [([Glossary_tab], St_subheader ''The Common Language of Continuous Improvement''),
      ([Glossary_tab], St_markdown ''Use this dictionary to understand the key terms, concepts, and methodologies that form the foundation of our operational excellence program. A shared vocabulary is essential for effective collaboration and problem-solving.'' False)]
   \<and> filter is_warning
        (panel Glossary_tab
          (page (snd (render_with accepting (returns evs) (returns trs) (returns []) ssm blank))))
     = []\<close>
  by (simp add: page_accepting panel_page glossary_tab_def is_warning_def)

subsection \<open>Containment of failures\<close>






subsection \<open>Date strings and calendar dates\<close>

text \<open>
  Digit strings of equal length compare as the numbers they denote, so two zero-padded
  dates compare as strings exactly as they do as dates.
\<close>

lemma digit_val_less: "is_digit c \<Longrightarrow> digit_val c < 10"
  by (auto simp: is_digit_def digit_val_def less_eq_char_def)

lemma digit_less_iff:
  "is_digit c \<Longrightarrow> is_digit d \<Longrightarrow> c < d \<longleftrightarrow> digit_val c < digit_val d"
  by (auto simp: is_digit_def digit_val_def less_eq_char_def less_char_def)

lemma digit_eq_iff:
  "is_digit c \<Longrightarrow> is_digit d \<Longrightarrow> c = d \<longleftrightarrow> digit_val c = digit_val d"
proof -
  assume "is_digit c" "is_digit d"
  then have "48 \<le> (of_char c :: nat)" "48 \<le> (of_char d :: nat)"
    by (simp_all add: is_digit_def less_eq_char_def)
  then have "digit_val c = digit_val d \<longleftrightarrow> (of_char c :: nat) = of_char d"
    unfolding digit_val_def by arith
  also have "\<dots> \<longleftrightarrow> c = d" by (rule of_char_eq_iff)
  finally show ?thesis by simp
qed

lemma digit_not_hyphen: "is_digit c \<Longrightarrow> c \<noteq> CHR ''-''"
  by (auto simp: is_digit_def less_eq_char_def)

lemma decimal_order:
  assumes "length xs = length ys" "list_all is_digit xs" "list_all is_digit ys"
  shows "(foldl (\<lambda>n c. 10 * n + digit_val c) a xs < foldl (\<lambda>n c. 10 * n + digit_val c) b ys
            \<longleftrightarrow> a < b \<or> a = b \<and> xs < ys)
       \<and> (foldl (\<lambda>n c. 10 * n + digit_val c) a xs = foldl (\<lambda>n c. 10 * n + digit_val c) b ys
            \<longleftrightarrow> a = b \<and> xs = ys)"
  using assms
proof (induction xs ys arbitrary: a b rule: list_induct2)
  case Nil
  show ?case by simp
next
  case (Cons x xs y ys)
  from Cons.prems have dx: "is_digit x" and dy: "is_digit y"
    and dxs: "list_all is_digit xs" and dys: "list_all is_digit ys" by simp_all
  note IH = Cons.IH[OF dxs dys, of "10 * a + digit_val x" "10 * b + digit_val y"]
  have lx: "digit_val x < 10" and ly: "digit_val y < 10"
    using dx dy by (simp_all add: digit_val_less)
  have less: "10 * a + digit_val x < 10 * b + digit_val y
      \<longleftrightarrow> a < b \<or> a = b \<and> digit_val x < digit_val y"
    using lx ly by arith
  have eq: "10 * a + digit_val x = 10 * b + digit_val y \<longleftrightarrow> a = b \<and> digit_val x = digit_val y"
    using lx ly by arith
  show ?case
    using IH less eq digit_less_iff[OF dx dy] digit_eq_iff[OF dx dy]
    by (simp only: foldl_Cons Cons_less_Cons list.inject) blast
qed

lemma dec_less_iff:
  "length xs = length ys \<Longrightarrow> list_all is_digit xs \<Longrightarrow> list_all is_digit ys
     \<Longrightarrow> dec xs < dec ys \<longleftrightarrow> xs < ys"
  using decimal_order[of xs ys 0 0] by (simp add: dec_def)

lemma dec_eq_iff:
  "length xs = length ys \<Longrightarrow> list_all is_digit xs \<Longrightarrow> list_all is_digit ys
     \<Longrightarrow> dec xs = dec ys \<longleftrightarrow> xs = ys"
  using decimal_order[of xs ys 0 0] by (simp add: dec_def)

lemma lex_append:
  "length a = length b \<Longrightarrow> a @ x < b @ y \<longleftrightarrow> a < b \<or> a = b \<and> x < y"
  by (induction a b rule: list_induct2) auto

lemma fields_digits: "list_all is_digit a \<Longrightarrow> fields (a @ CHR ''-'' # s) = a # fields s"
  by (induction a) (auto simp: digit_not_hyphen)

lemma fields_last: "list_all is_digit a \<Longrightarrow> fields a = [a]"
  by (induction a) (auto simp: digit_not_hyphen)

lemma iso_date_parts:
  assumes "iso_date s"
  obtains Y M D where "s = Y @ CHR ''-'' # M @ CHR ''-'' # D"
    "length Y = 4" "length M = 2" "length D = 2"
    "list_all is_digit Y" "list_all is_digit M" "list_all is_digit D"
proof -
  from assms have len: "length s = 10" and h1: "s ! 4 = CHR ''-''" and h2: "s ! 7 = CHR ''-''"
    and dY: "list_all is_digit (take 4 s)" and dM: "list_all is_digit (take 2 (drop 5 s))"
    and dD: "list_all is_digit (drop 8 s)"
    by (simp_all add: iso_date_def)
  from len have "s = take 4 s @ s ! 4 # drop 5 s"
    using id_take_nth_drop[of 4 s] by simp
  moreover from len have "drop 5 s = take 2 (drop 5 s) @ drop 5 s ! 2 # drop 3 (drop 5 s)"
    using id_take_nth_drop[of 2 "drop 5 s"] by simp
  moreover from len have "drop 5 s ! 2 = s ! 7" by simp
  ultimately have "s = take 4 s @ CHR ''-'' # take 2 (drop 5 s) @ CHR ''-'' # drop 8 s"
    using h1 h2 by simp
  moreover from len have "length (take 4 s) = 4" "length (take 2 (drop 5 s)) = 2" "length (drop 8 s) = 2"
    by simp_all
  ultimately show ?thesis using dY dM dD by (rule that)
qed

lemma calendar_parts:
  assumes "list_all is_digit Y" "list_all is_digit M" "list_all is_digit D"
    "Y \<noteq> []" "M \<noteq> []" "D \<noteq> []"
  shows "calendar (Y @ CHR ''-'' # M @ CHR ''-'' # D) = Some (dec Y, dec M, dec D)"
  using assms by (simp add: calendar_def fields_digits fields_last number_def)

lemma iso_order:
  assumes "iso_date s" "iso_date t"
  shows "s < t \<longleftrightarrow> earlier s t"
proof -
  from assms(1) obtain Y M D where s: "s = Y @ CHR ''-'' # M @ CHR ''-'' # D"
    and ls: "length Y = 4" "length M = 2" "length D = 2"
    and ds: "list_all is_digit Y" "list_all is_digit M" "list_all is_digit D"
    by (rule iso_date_parts)
  from assms(2) obtain Y' M' D' where t: "t = Y' @ CHR ''-'' # M' @ CHR ''-'' # D'"
    and lt: "length Y' = 4" "length M' = 2" "length D' = 2"
    and dt: "list_all is_digit Y'" "list_all is_digit M'" "list_all is_digit D'"
    by (rule iso_date_parts)
  from ls ds have cs: "calendar s = Some (dec Y, dec M, dec D)"
    unfolding s by (intro calendar_parts) auto
  from lt dt have ct: "calendar t = Some (dec Y', dec M', dec D')"
    unfolding t by (intro calendar_parts) auto
  have "s < t \<longleftrightarrow> Y < Y' \<or> Y = Y' \<and> (M < M' \<or> M = M' \<and> D < D')"
    unfolding s t using ls lt by (simp add: lex_append)
  also have "\<dots> \<longleftrightarrow> dec Y < dec Y' \<or> dec Y = dec Y'
        \<and> (dec M < dec M' \<or> dec M = dec M' \<and> dec D < dec D')"
    using ls lt ds dt by (simp add: dec_less_iff dec_eq_iff)
  also have "\<dots> \<longleftrightarrow> (dec Y, dec M, dec D) < (dec Y', dec M', dec D')"
    by auto
  finally show ?thesis by (simp add: earlier_def cs ct)
qed


lemma iso_sample:
  "iso_date ''2025-06-15''" "iso_date ''2025-05-22''" "iso_date ''2025-07-20''" "iso_date ''2025-07-01''"
  by (simp_all add: iso_date_def is_digit_def)

text \<open>
  Claim C10. The event log shows the events in the order of a descending sort on the
  date field compared as a string; no date is parsed. For two zero-padded ISO dates the
  string order is the calendar order, so a list of events whose dates are all in that
  format is shown with no event ahead of a later one. Without the format this fails:
  of two events dated 2025-10-01 and 2025-9-30, the event of 30 September is shown
  first although its date is the earlier one.
\<close>

theorem event_order_is_lexicographic:
  "gather event_caption
     (page (snd (render_with accepting (returns evs) (returns trs) (returns gl) ssm blank)))
     = map caption_line (sort_values_date_desc evs)
   \<and> sorted_wrt (\<lambda>x y. date y \<le> date x) (sort_values_date_desc evs)
   \<and> (iso_date s \<and> iso_date t \<longrightarrow> (s < t \<longleftrightarrow> earlier s t))
   \<and> ((\<forall>e \<in> set evs. iso_date (date e)) \<longrightarrow>
        sorted_wrt (\<lambda>x y. \<not> earlier (date x) (date y)) (sort_values_date_desc evs))
   \<and> sort_values_date_desc [dated ''KZN-A'' ''2025-10-01'', dated ''KZN-B'' ''2025-9-30'']
       = [dated ''KZN-B'' ''2025-9-30'', dated ''KZN-A'' ''2025-10-01'']
   \<and> earlier ''2025-9-30'' ''2025-10-01''"
proof (intro conjI impI)
  show "gather event_caption
     (page (snd (render_with accepting (returns evs) (returns trs) (returns gl) ssm blank)))
     = map caption_line (sort_values_date_desc evs)"
    by (simp only: page_accepting caption_page)
  show "sorted_wrt (\<lambda>x y. date y \<le> date x) (sort_values_date_desc evs)"
    by (rule sort_values_descending)
  show "s < t \<longleftrightarrow> earlier s t" if "iso_date s \<and> iso_date t"
    using that by (simp add: iso_order)
  show "sorted_wrt (\<lambda>x y. \<not> earlier (date x) (date y)) (sort_values_date_desc evs)"
    if iso: "\<forall>e \<in> set evs. iso_date (date e)"
  proof (rule sorted_wrt_mono_rel[OF _ sort_values_descending])
    fix x y
    assume "x \<in> set (sort_values_date_desc evs)" "y \<in> set (sort_values_date_desc evs)"
    then have "x \<in> set evs" "y \<in> set evs"
      by (simp_all add: sort_values_date_desc_def)
    with iso have "iso_date (date x)" "iso_date (date y)" by simp_all
    then have "date x < date y \<longleftrightarrow> earlier (date x) (date y)" by (rule iso_order)
    moreover assume "date y \<le> date x"
    ultimately show "\<not> earlier (date x) (date y)" by auto
  qed
  show "sort_values_date_desc [dated ''KZN-A'' ''2025-10-01'', dated ''KZN-B'' ''2025-9-30'']
       = [dated ''KZN-B'' ''2025-9-30'', dated ''KZN-A'' ''2025-10-01'']"
    by (simp add: sort_values_date_desc_def dated_def)
  show "earlier ''2025-9-30'' ''2025-10-01''"
    by (simp add: earlier_def calendar_def number_def dec_def digit_val_def is_digit_def)
qed

theorem event_order_is_lexicographic_witness:
  "iso_date ''2025-06-15'' \<and> iso_date ''2025-07-01''
   \<and> list_all (\<lambda>e. iso_date (date e)) [event_KZN_02, event_KZN_01, event_KZN_04, event_KZN_03]
   \<and> ''2025-06-15'' < ''2025-07-01''
   \<and> earlier ''2025-06-15'' ''2025-07-01''
   \<and> sorted_wrt (\<lambda>x y. \<not> earlier (date x) (date y))
        [event_KZN_04, event_KZN_03, event_KZN_02, event_KZN_01]"
proof -
  have iso: "iso_date ''2025-06-15'' \<and> iso_date ''2025-07-01''"
    by (simp add: iso_sample)
  have all: "\<forall>e \<in> set [event_KZN_02, event_KZN_01, event_KZN_04, event_KZN_03]. iso_date (date e)"
    by (simp add: event_fields iso_sample)
  have less: "''2025-06-15'' < ''2025-07-01''" by simp
  note T = event_order_is_lexicographic[of "[event_KZN_02, event_KZN_01, event_KZN_04, event_KZN_03]"
      "[]" "[]" "()" "''2025-06-15''" "''2025-07-01''", unfolded sorted_sample]
  from T have "iso_date ''2025-06-15'' \<and> iso_date ''2025-07-01'' \<longrightarrow>
      (''2025-06-15'' < ''2025-07-01'') = earlier ''2025-06-15'' ''2025-07-01''"
    by (rule conjunct2[THEN conjunct2, THEN conjunct1])
  with iso have "(''2025-06-15'' < ''2025-07-01'') = earlier ''2025-06-15'' ''2025-07-01''"
    by (rule rev_mp)
  from this less have e: "earlier ''2025-06-15'' ''2025-07-01''" by (rule iffD1)
  from T have "(\<forall>e \<in> set [event_KZN_02, event_KZN_01, event_KZN_04, event_KZN_03]. iso_date (date e))
      \<longrightarrow> sorted_wrt (\<lambda>x y. \<not> earlier (date x) (date y))
        [event_KZN_04, event_KZN_03, event_KZN_02, event_KZN_01]"
    by (rule conjunct2[THEN conjunct2, THEN conjunct2, THEN conjunct1])
  with all have srt: "sorted_wrt (\<lambda>x y. \<not> earlier (date x) (date y))
        [event_KZN_04, event_KZN_03, event_KZN_02, event_KZN_01]"
    by (rule rev_mp)
  from iso have "iso_date ''2025-06-15''" and "iso_date ''2025-07-01''"
    by (rule conjunct1, rule conjunct2)
  moreover from all
  have "list_all (\<lambda>e. iso_date (date e)) [event_KZN_02, event_KZN_01, event_KZN_04, event_KZN_03]"
    by (simp only: list_all_iff)
  moreover note less e srt
  ultimately show ?thesis
    by - (intro conjI; assumption)
qed

end
